theory Spec2Isabelle
  imports Complex_Main
begin

section \<open>aioftp.common: throttles, throttled streams and async iteration\<close>

text \<open>
  A shallow embedding of \<^verbatim>\<open>src/aioftp/common.py\<close>. Python objects that are mutated
  in place are modelled by explicit state passing; objects that can be shared by reference
  (\<^verbatim>\<open>Throttle\<close> instances, the \<^verbatim>\<open>throttles\<close> dictionaries) live in a store.

  Clock readings of \<^verbatim>\<open>asyncio\<close>'s loop time, \<^verbatim>\<open>reset_rate\<close> and timeouts are Python
  numbers (\<^verbatim>\<open>int\<close> or \<^verbatim>\<open>float\<close>). A finite number is the rational it denotes. Where
  the code computes with floats and an integer of its state or the branch it takes depends
  on the result (\<^verbatim>\<open>Throttle.append\<close>), the operations are those of binary64: the exact
  result rounded to the nearest float, ties to the even one. Infinities and NaN are not
  values of the model; loop times are finite and far from the end of the range. Where a
  float is only handed on (the argument of \<^verbatim>\<open>asyncio.sleep\<close> in \<^verbatim>\<open>Throttle.wait\<close>) it is
  given as the exact value of the expression. Byte strings are lists of characters (an
  Isabelle \<^typ>\<open>char\<close> is one byte).
\<close>

type_synonym bytes = string

subsection \<open>Python helpers\<close>

text \<open>
  \<^verbatim>\<open>round(x)\<close> with one argument returns an integer, rounding halves to the even
  neighbour.
\<close>

definition py_round :: "rat \<Rightarrow> int" where
  "py_round x =
     (let f = \<lfloor>x\<rfloor>; d = x - of_int f
      in if d < 1 / 2 then f
         else if 1 / 2 < d then f + 1
         else if even f then f else f + 1)"

text \<open>\<^verbatim>\<open>int.bit_length\<close> of a positive integer (0 for the others).\<close>

fun bit_length :: "int \<Rightarrow> nat" where
  "bit_length n = (if n \<le> 0 then 0 else Suc (bit_length (n div 2)))"

declare bit_length.simps [simp del]

definition pow2 :: "int \<Rightarrow> rat" where
  "pow2 k = (if 0 \<le> k then 2 ^ nat k else 1 / 2 ^ nat (- k))"

text \<open>The exponent \<open>e\<close> with \<open>2 ^ e \<le> a < 2 ^ (e + 1)\<close>, for positive \<open>a\<close>.\<close>

definition binade :: "rat \<Rightarrow> int" where
  "binade a =
     (if 1 \<le> a then int (bit_length \<lfloor>a\<rfloor>) - 1
      else - int (bit_length (\<lceil>1 / a\<rceil> - 1)))"

text \<open>
  The binary64 float nearest to \<open>x\<close>, ties to the even significand: floats are the
  multiples of \<open>2 ^ q\<close> with a significand of at most 53 bits, and \<open>q\<close> is never less
  than \<open>-1074\<close> (the subnormal floats). The range has no upper end here.
\<close>

definition round_double :: "rat \<Rightarrow> rat" where
  "round_double x =
     (if x = 0 then 0
      else
        (let a = \<bar>x\<bar>;
             q = max (binade a - 52) (- 1074);
             m = py_round (a / pow2 q)
         in sgn x * of_int m * pow2 q))"

text \<open>
  \<^verbatim>\<open>a - b\<close> and \<^verbatim>\<open>a * b\<close> on floats, and the conversion of an \<^verbatim>\<open>int\<close> that meets a
  float in an operation.
\<close>

definition float_sub :: "rat \<Rightarrow> rat \<Rightarrow> rat" where
  "float_sub a b = round_double (a - b)"

definition float_mul :: "rat \<Rightarrow> rat \<Rightarrow> rat" where
  "float_mul a b = round_double (a * b)"

definition float_of_int :: "int \<Rightarrow> rat" where
  "float_of_int n = round_double (of_int n)"

text \<open>Truth value of an \<^verbatim>\<open>Optional\<close> number: \<^verbatim>\<open>None\<close> and zero are falsy.\<close>

definition truthy :: "'a::zero option \<Rightarrow> bool" where
  "truthy v = (case v of None \<Rightarrow> False | Some x \<Rightarrow> x \<noteq> 0)"

text \<open>\<^verbatim>\<open>a or b\<close>: the first operand when it is truthy, the second otherwise.\<close>

definition py_or :: "'a::zero option \<Rightarrow> 'a option \<Rightarrow> 'a option" where
  "py_or a b = (if truthy a then a else b)"

subsection \<open>Throttle\<close>

text \<open>
  The fields \<^verbatim>\<open>_limit\<close>, \<^verbatim>\<open>reset_rate\<close>, \<^verbatim>\<open>_start\<close> and \<^verbatim>\<open>_sum\<close> of
  \<^verbatim>\<open>class Throttle\<close> (an identifier cannot begin with an underscore here, and
  \<open>sum\<close> is taken).
\<close>

record Throttle =
  t_limit :: "int option"
  reset_rate :: rat
  t_start :: "rat option"
  t_sum :: int

text \<open>\<^verbatim>\<open>Throttle.__init__(self, *, limit=None, reset_rate=10)\<close>\<close>

definition Throttle_init :: "int option \<Rightarrow> rat \<Rightarrow> Throttle" where
  "Throttle_init limit rr =
     \<lparr>t_limit = limit, reset_rate = rr, t_start = None, t_sum = 0\<rparr>"

text \<open>
  \<^verbatim>\<open>Throttle.wait\<close>. The second argument is the value \<^verbatim>\<open>_now()\<close> returns when the
  guard lets the body run. The first component of the result is the argument of the one
  \<^verbatim>\<open>asyncio.sleep\<close> the coroutine awaits, \<open>None\<close> when it returns without awaiting
  anything; the second is the throttle afterwards (no field is assigned).
\<close>

definition Throttle_wait :: "Throttle \<Rightarrow> rat \<Rightarrow> rat option \<times> Throttle" where
  "Throttle_wait self now =
     (case t_limit self of
        None \<Rightarrow> (None, self)
      | Some limit \<Rightarrow>
          if 0 < limit then
            (case t_start self of
               None \<Rightarrow> (None, self)
             | Some start \<Rightarrow>
                 (let end = start + of_int (t_sum self) / of_int limit
                  in (Some (max 0 (end - now)), self)))
          else (None, self))"

text \<open>
  \<^verbatim>\<open>Throttle.append(self, data, start)\<close>. \<^verbatim>\<open>start\<close> and \<^verbatim>\<open>_start\<close> are floats, so the
  difference and its product with the limit are float operations; the comparison of a
  float with \<^verbatim>\<open>reset_rate\<close> is exact in Python, whether that is an \<^verbatim>\<open>int\<close> or a float.
\<close>

definition Throttle_append :: "Throttle \<Rightarrow> bytes \<Rightarrow> rat \<Rightarrow> Throttle" where
  "Throttle_append self data start =
     (case t_limit self of
        None \<Rightarrow> self
      | Some limit \<Rightarrow>
          if 0 < limit then
            (let s0 = (case t_start self of None \<Rightarrow> start | Some s \<Rightarrow> s);
                 self1 = self\<lparr>t_start := Some s0\<rparr>;
                 self2 =
                   (if reset_rate self1 < float_sub start s0
                    then self1\<lparr>t_sum := t_sum self1 -
                                 py_round (float_mul (float_sub start s0) (float_of_int limit)),
                               t_start := Some start\<rparr>
                    else self1)
             in self2\<lparr>t_sum := t_sum self2 + int (length data)\<rparr>)
          else self)"

text \<open>The setter of the \<^verbatim>\<open>limit\<close> property.\<close>

definition Throttle_set_limit :: "Throttle \<Rightarrow> int option \<Rightarrow> Throttle" where
  "Throttle_set_limit self v = self\<lparr>t_limit := v, t_start := None, t_sum := 0\<rparr>"

subsection \<open>Exceptions and coroutines\<close>

datatype exn = StopAsyncIteration | TimeoutError | AttributeError | OtherError string

text \<open>
  What awaiting a coroutine started in state \<open>'s\<close> does: it takes \<open>co_duration\<close>
  seconds of loop time and then returns a value or raises (\<open>co_result\<close>), leaving the
  state \<open>co_after\<close>; cancelled \<open>t\<close> seconds after its start, before it has
  finished, it leaves the state \<open>co_cancelled t\<close>.
\<close>

record ('a, 's) coro =
  co_duration :: rat
  co_result :: "exn + 'a"
  co_after :: 's
  co_cancelled :: "rat \<Rightarrow> 's"

text \<open>\<^verbatim>\<open>await coro\<close>\<close>

definition await :: "('a, 's) coro \<Rightarrow> (exn + 'a) \<times> 's" where
  "await c = (co_result c, co_after c)"

text \<open>
  \<^verbatim>\<open>await asyncio.wait_for(coro, timeout)\<close>, a function of the standard library: with
  \<^verbatim>\<open>timeout=None\<close> it awaits the coroutine; otherwise a coroutine that has not finished
  within the timeout is cancelled and \<^verbatim>\<open>TimeoutError\<close> is raised.
\<close>

definition wait_for :: "('a, 's) coro \<Rightarrow> rat option \<Rightarrow> (exn + 'a) \<times> 's" where
  "wait_for c timeout =
     (case timeout of
        None \<Rightarrow> await c
      | Some t \<Rightarrow>
          if co_duration c \<le> t then await c
          else (Inl TimeoutError, co_cancelled c t))"

text \<open>
  \<^verbatim>\<open>_with_timeout(name)(f)\<close>: the wrapped method creates the coroutine, reads the
  attribute \<^verbatim>\<open>name\<close> of \<^verbatim>\<open>self\<close> (the first argument, which \<^verbatim>\<open>get_param\<close> picks out)
  at the time of the call, and awaits \<^verbatim>\<open>wait_for\<close>. The attribute is given as the
  function that reads it off the state.
\<close>

definition with_timeout ::
  "('s \<Rightarrow> rat option) \<Rightarrow> ('s \<Rightarrow> ('a, 's) coro) \<Rightarrow> 's \<Rightarrow> (exn + 'a) \<times> 's" where
  "with_timeout name f s = (let coro = f s; timeout = name s in wait_for coro timeout)"

subsection \<open>Async iteration\<close>

text \<open>
  \<^verbatim>\<open>items = []; async for item in self: items.append(item); return items\<close>, the body of
  \<^verbatim>\<open>AsyncListerMixin._to_list\<close>, over the step \<open>anext\<close> that awaiting
  \<^verbatim>\<open>self.__anext__()\<close> performs (\<^verbatim>\<open>__aiter__\<close> returns \<^verbatim>\<open>self\<close>). The loop ends normally
  on \<^verbatim>\<open>StopAsyncIteration\<close>; any other exception leaves it. A loop that never ends has
  the value \<open>None\<close>.
\<close>

partial_function (option) async_for ::
  "('s \<Rightarrow> (exn + 'a) \<times> 's) \<Rightarrow> 's \<Rightarrow> 'a list \<Rightarrow> ((exn + 'a list) \<times> 's) option" where
  "async_for anext s items =
     (case anext s of
        (Inl e, s') \<Rightarrow>
          if e = StopAsyncIteration then Some (Inr items, s') else Some (Inl e, s')
      | (Inr item, s') \<Rightarrow> async_for anext s' (items @ [item]))"

declare async_for.simps [code]


text \<open>
  The first \<open>n\<close> steps of an iteration, when each of them yields an item: the items in
  order and the state reached.
\<close>

fun take_steps :: "('s \<Rightarrow> (exn + 'a) \<times> 's) \<Rightarrow> nat \<Rightarrow> 's \<Rightarrow> ('a list \<times> 's) option" where
  "take_steps anext 0 s = Some ([], s)"
| "take_steps anext (Suc n) s =
     (case anext s of
        (Inl e, s') \<Rightarrow> None
      | (Inr item, s') \<Rightarrow>
          (case take_steps anext n s' of
             None \<Rightarrow> None
           | Some (items, s'') \<Rightarrow> Some (item # items, s'')))"

text \<open>
  \<^verbatim>\<open>AsyncStreamIterator.__anext__\<close> over the read operation \<^verbatim>\<open>read_coro\<close>, a step on the
  state \<open>'w\<close> of whatever it reads from.
\<close>

definition AsyncStreamIterator_anext ::
  "('w \<Rightarrow> (exn + 'b list) \<times> 'w) \<Rightarrow> 'w \<Rightarrow> (exn + 'b list) \<times> 'w" where
  "AsyncStreamIterator_anext read_coro w =
     (case read_coro w of
        (Inl e, w') \<Rightarrow> (Inl e, w')
      | (Inr data, w') \<Rightarrow>
          if data \<noteq> [] then (Inr data, w') else (Inl StopAsyncIteration, w'))"

text \<open>
  A read operation that returns the results of a script one after the other; once the
  script has run out it is at the end of its stream and returns the empty result.
\<close>

fun scripted_read :: "bytes list \<Rightarrow> (exn + bytes) \<times> bytes list" where
  "scripted_read [] = (Inr [], [])"
| "scripted_read (x # xs) = (Inr x, xs)"

text \<open>
  \<^verbatim>\<open>AbstractAsyncLister\<close> stores \<^verbatim>\<open>timeout\<close>; its own \<^verbatim>\<open>__anext__\<close> is the abstract
  method under \<^verbatim>\<open>@with_timeout\<close>. A concrete class has to define \<^verbatim>\<open>__anext__\<close> (a class
  that leaves an abstract method undefined cannot be instantiated), and the function it
  binds replaces the inherited one: the step of an iteration is the subclass's function
  as the subclass wrote it. \<open>undecorated f\<close> is the step of
  \<^verbatim>\<open>async def __anext__(self): ...\<close> with body \<open>f\<close>, \<open>decorated f\<close> the step of the same
  method under \<^verbatim>\<open>@with_timeout\<close>, as in the class's docstring.
\<close>

record AbstractAsyncLister =
  timeout :: "rat option"





subsection \<open>The store\<close>

text \<open>
  \<^verbatim>\<open>Throttle\<close> instances and dictionaries are mutable objects that several owners can
  hold, so they are kept in a store and named by reference. \<open>next_ref\<close> is the first
  reference no \<^verbatim>\<open>Throttle\<close> has been created at. \<open>loop_time\<close> is what \<^verbatim>\<open>_now()\<close> returns;
  \<open>transport\<close> is the state of the reader and the writer of a stream.
\<close>

type_synonym ref = nat

text \<open>\<^verbatim>\<open>class StreamThrottle(NamedTuple)\<close>: an immutable pair of references, the fields
  \<^verbatim>\<open>read\<close> and \<^verbatim>\<open>write\<close> (\<open>write\<close> is a keyword here).\<close>

record StreamThrottle =
  read :: ref
  write' :: ref

record 't world =
  throttle_objs :: "ref \<Rightarrow> Throttle"
  next_ref :: ref
  dict_objs :: "ref \<Rightarrow> (string \<times> StreamThrottle) list"
  loop_time :: rat
  transport :: 't

text \<open>The expression \<^verbatim>\<open>Throttle(limit=..., reset_rate=...)\<close>: a new object.\<close>

definition new_Throttle :: "int option \<Rightarrow> rat \<Rightarrow> 't world \<Rightarrow> ref \<times> 't world" where
  "new_Throttle limit rr w =
     (next_ref w,
      w\<lparr>throttle_objs := (throttle_objs w)(next_ref w := Throttle_init limit rr),
        next_ref := Suc (next_ref w)\<rparr>)"

text \<open>\<^verbatim>\<open>Throttle.clone\<close>\<close>

definition Throttle_clone :: "ref \<Rightarrow> 't world \<Rightarrow> ref \<times> 't world" where
  "Throttle_clone self w =
     new_Throttle (t_limit (throttle_objs w self)) (reset_rate (throttle_objs w self)) w"

text \<open>\<^verbatim>\<open>StreamThrottle.clone\<close>\<close>

definition StreamThrottle_clone :: "StreamThrottle \<Rightarrow> 't world \<Rightarrow> StreamThrottle \<times> 't world" where
  "StreamThrottle_clone self w =
     (let (r, w1) = Throttle_clone (read self) w;
          (wr, w2) = Throttle_clone (write' self) w1
      in (\<lparr>read = r, write' = wr\<rparr>, w2))"

text \<open>
  A \<^verbatim>\<open>dict\<close> keeps its keys unique and in the order of insertion: \<^verbatim>\<open>d[k] = v\<close> replaces
  the value of a key that is there and appends a new one.
\<close>

fun dict_setitem :: "('k \<times> 'v) list \<Rightarrow> 'k \<Rightarrow> 'v \<Rightarrow> ('k \<times> 'v) list" where
  "dict_setitem [] k v = [(k, v)]"
| "dict_setitem ((k', v') # d) k v =
     (if k' = k then (k, v) # d else (k', v') # dict_setitem d k v)"

definition dict_values :: "('k \<times> 'v) list \<Rightarrow> 'v list" where
  "dict_values d = map snd d"

subsection \<open>StreamIO\<close>

text \<open>
  The timeouts of \<^verbatim>\<open>class StreamIO\<close>; its reader and writer are the \<open>transport\<close> of the
  world. \<^verbatim>\<open>StreamIO.__init__(self, reader, writer, *, timeout=None, read_timeout=None,
  write_timeout=None)\<close>.
\<close>

record StreamIO =
  read_timeout :: "rat option"
  write_timeout :: "rat option"

definition StreamIO_init :: "rat option \<Rightarrow> rat option \<Rightarrow> rat option \<Rightarrow> StreamIO" where
  "StreamIO_init timeout_arg read_timeout_arg write_timeout_arg =
     \<lparr>read_timeout = py_or read_timeout_arg timeout_arg,
      write_timeout = py_or write_timeout_arg timeout_arg\<rparr>"

text \<open>
  What the event loop and the transport do is not part of this file; a model of it is a
  parameter. \<open>asyncio_wait tasks\<close> is \<^verbatim>\<open>await asyncio.wait(tasks)\<close> for the tasks that run
  \<^verbatim>\<open>Throttle.wait\<close> of the throttles \<open>tasks\<close>; the other three are the coroutines
  \<^verbatim>\<open>reader.read(count)\<close>, \<^verbatim>\<open>reader.readline()\<close> and \<^verbatim>\<open>writer.write(data)\<close> followed by
  \<^verbatim>\<open>writer.drain()\<close>. While a coroutine is suspended other tasks run, so each of them
  may change the world in any way.
\<close>

record 't asyncio =
  asyncio_wait :: "ref list \<Rightarrow> 't world \<Rightarrow> 't world"
  reader_read :: "int \<Rightarrow> 't world \<Rightarrow> (bytes, 't world) coro"
  reader_readline :: "'t world \<Rightarrow> (bytes, 't world) coro"
  writer_write_drain :: "bytes \<Rightarrow> 't world \<Rightarrow> (unit, 't world) coro"

text \<open>
  \<^verbatim>\<open>StreamIO.read\<close>, \<^verbatim>\<open>StreamIO.readline\<close> and \<^verbatim>\<open>StreamIO.write\<close>, each under
  \<^verbatim>\<open>@with_timeout("read_timeout")\<close> or \<^verbatim>\<open>@with_timeout("write_timeout")\<close>.
\<close>

definition StreamIO_read ::
  "'t asyncio \<Rightarrow> 'z StreamIO_scheme \<Rightarrow> int \<Rightarrow> 't world \<Rightarrow> (exn + bytes) \<times> 't world" where
  "StreamIO_read io self count = with_timeout (\<lambda>w. read_timeout self) (reader_read io count)"

definition StreamIO_readline ::
  "'t asyncio \<Rightarrow> 'z StreamIO_scheme \<Rightarrow> 't world \<Rightarrow> (exn + bytes) \<times> 't world" where
  "StreamIO_readline io self = with_timeout (\<lambda>w. read_timeout self) (reader_readline io)"

definition StreamIO_write ::
  "'t asyncio \<Rightarrow> 'z StreamIO_scheme \<Rightarrow> bytes \<Rightarrow> 't world \<Rightarrow> (exn + unit) \<times> 't world" where
  "StreamIO_write io self data =
     with_timeout (\<lambda>w. write_timeout self) (writer_write_drain io data)"

subsection \<open>ThrottleStreamIO\<close>

record ThrottleStreamIO = StreamIO +
  throttles :: ref

text \<open>
  The default value of the parameter \<^verbatim>\<open>throttles\<close> is the dictionary that \<^verbatim>\<open>{}\<close> created
  when the \<^verbatim>\<open>def\<close> statement of \<^verbatim>\<open>__init__\<close> was executed, once: every call that leaves
  the argument out gets a reference to this one object.
\<close>

definition default_throttles :: ref where
  "default_throttles = 0"

text \<open>
  \<^verbatim>\<open>ThrottleStreamIO.__init__(self, *args, throttles={}, **kwargs)\<close>; \<open>None\<close> is the
  argument left out.
\<close>

definition ThrottleStreamIO_init ::
  "ref option \<Rightarrow> rat option \<Rightarrow> rat option \<Rightarrow> rat option \<Rightarrow> ThrottleStreamIO" where
  "ThrottleStreamIO_init throttles_arg timeout_arg read_timeout_arg write_timeout_arg =
     (let super = StreamIO_init timeout_arg read_timeout_arg write_timeout_arg
      in \<lparr>read_timeout = read_timeout super, write_timeout = write_timeout super,
          throttles = (case throttles_arg of None \<Rightarrow> default_throttles | Some d \<Rightarrow> d)\<rparr>)"

text \<open>The statement \<^verbatim>\<open>stream.throttles[key] = pair\<close>.\<close>

definition throttles_setitem ::
  "ThrottleStreamIO \<Rightarrow> string \<Rightarrow> StreamThrottle \<Rightarrow> 't world \<Rightarrow> 't world" where
  "throttles_setitem stream key pair w =
     w\<lparr>dict_objs := (dict_objs w)
        (throttles stream := dict_setitem (dict_objs w (throttles stream)) key pair)\<rparr>"

text \<open>\<^verbatim>\<open>getattr(throttle, name)\<close> for the two fields of a \<^verbatim>\<open>StreamThrottle\<close>.\<close>

definition getattr_throttle :: "StreamThrottle \<Rightarrow> string \<Rightarrow> exn + ref" where
  "getattr_throttle throttle name =
     (if name = ''read'' then Inr (read throttle)
      else if name = ''write'' then Inr (write' throttle)
      else Inl AttributeError)"

text \<open>
  The loop of \<^verbatim>\<open>ThrottleStreamIO.wait\<close> over \<^verbatim>\<open>self.throttles.values()\<close>: the tasks it
  creates, each named by the throttle whose \<^verbatim>\<open>wait()\<close> it runs.
\<close>

fun wait_loop :: "StreamThrottle list \<Rightarrow> string \<Rightarrow> 't world \<Rightarrow> ref list \<Rightarrow> exn + ref list" where
  "wait_loop [] name w tasks = Inr tasks"
| "wait_loop (throttle # rest) name w tasks =
     (case getattr_throttle throttle name of
        Inl e \<Rightarrow> Inl e
      | Inr curr_throttle \<Rightarrow>
          wait_loop rest name w
            (if truthy (t_limit (throttle_objs w curr_throttle))
             then tasks @ [curr_throttle] else tasks))"

text \<open>\<^verbatim>\<open>ThrottleStreamIO.wait\<close>; an exception leaves the world as it was.\<close>

definition ThrottleStreamIO_wait ::
  "'t asyncio \<Rightarrow> ThrottleStreamIO \<Rightarrow> string \<Rightarrow> 't world \<Rightarrow> exn + 't world" where
  "ThrottleStreamIO_wait io self name w =
     (case wait_loop (dict_values (dict_objs w (throttles self))) name w [] of
        Inl e \<Rightarrow> Inl e
      | Inr tasks \<Rightarrow> Inr (if tasks \<noteq> [] then asyncio_wait io tasks w else w))"

text \<open>
  The loop of \<^verbatim>\<open>ThrottleStreamIO.append\<close>. Every pair has the same attributes, so
  \<^verbatim>\<open>getattr\<close> can only fail at the first pair, before any throttle has been changed.
\<close>

fun append_loop ::
  "StreamThrottle list \<Rightarrow> string \<Rightarrow> bytes \<Rightarrow> rat \<Rightarrow> 't world \<Rightarrow> exn + 't world" where
  "append_loop [] name data start w = Inr w"
| "append_loop (throttle # rest) name data start w =
     (case getattr_throttle throttle name of
        Inl e \<Rightarrow> Inl e
      | Inr r \<Rightarrow>
          append_loop rest name data start
            (w\<lparr>throttle_objs :=
                 (throttle_objs w)(r := Throttle_append (throttle_objs w r) data start)\<rparr>))"

definition ThrottleStreamIO_append ::
  "ThrottleStreamIO \<Rightarrow> string \<Rightarrow> bytes \<Rightarrow> rat \<Rightarrow> 't world \<Rightarrow> exn + 't world" where
  "ThrottleStreamIO_append self name data start w =
     append_loop (dict_values (dict_objs w (throttles self))) name data start w"

text \<open>\<^verbatim>\<open>ThrottleStreamIO.read\<close>, \<^verbatim>\<open>readline\<close> and \<^verbatim>\<open>write\<close>.\<close>

definition ThrottleStreamIO_read ::
  "'t asyncio \<Rightarrow> ThrottleStreamIO \<Rightarrow> int \<Rightarrow> 't world \<Rightarrow> (exn + bytes) \<times> 't world" where
  "ThrottleStreamIO_read io self count w =
     (case ThrottleStreamIO_wait io self ''read'' w of
        Inl e \<Rightarrow> (Inl e, w)
      | Inr w1 \<Rightarrow>
          (let start = loop_time w1 in
           case StreamIO_read io self count w1 of
             (Inl e, w2) \<Rightarrow> (Inl e, w2)
           | (Inr data, w2) \<Rightarrow>
               (case ThrottleStreamIO_append self ''read'' data start w2 of
                  Inl e \<Rightarrow> (Inl e, w2)
                | Inr w3 \<Rightarrow> (Inr data, w3))))"

definition ThrottleStreamIO_readline ::
  "'t asyncio \<Rightarrow> ThrottleStreamIO \<Rightarrow> 't world \<Rightarrow> (exn + bytes) \<times> 't world" where
  "ThrottleStreamIO_readline io self w =
     (case ThrottleStreamIO_wait io self ''read'' w of
        Inl e \<Rightarrow> (Inl e, w)
      | Inr w1 \<Rightarrow>
          (let start = loop_time w1 in
           case StreamIO_readline io self w1 of
             (Inl e, w2) \<Rightarrow> (Inl e, w2)
           | (Inr data, w2) \<Rightarrow>
               (case ThrottleStreamIO_append self ''read'' data start w2 of
                  Inl e \<Rightarrow> (Inl e, w2)
                | Inr w3 \<Rightarrow> (Inr data, w3))))"

definition ThrottleStreamIO_write ::
  "'t asyncio \<Rightarrow> ThrottleStreamIO \<Rightarrow> bytes \<Rightarrow> 't world \<Rightarrow> (exn + unit) \<times> 't world" where
  "ThrottleStreamIO_write io self data w =
     (case ThrottleStreamIO_wait io self ''write'' w of
        Inl e \<Rightarrow> (Inl e, w)
      | Inr w1 \<Rightarrow>
          (let start = loop_time w1 in
           case StreamIO_write io self data w1 of
             (Inl e, w2) \<Rightarrow> (Inl e, w2)
           | (Inr u, w2) \<Rightarrow>
               (case ThrottleStreamIO_append self ''write'' data start w2 of
                  Inl e \<Rightarrow> (Inl e, w2)
                | Inr w3 \<Rightarrow> (Inr (), w3))))"

subsection \<open>What waiting and accounting amount to\<close>

text \<open>
  The throttles among \<open>sides\<close> for which \<^verbatim>\<open>ThrottleStreamIO.wait\<close> creates a task: those
  whose limit is truthy, in the order of the dictionary.
\<close>

definition waited :: "ref list \<Rightarrow> 't world \<Rightarrow> ref list" where
  "waited sides w = filter (\<lambda>r. truthy (t_limit (throttle_objs w r))) sides"

text \<open>
  The world after \<^verbatim>\<open>append(data, start)\<close> has been called on each throttle of \<open>sides\<close>,
  once for each time it occurs there; nothing but these throttles changes.
\<close>

definition accounted :: "ref list \<Rightarrow> bytes \<Rightarrow> rat \<Rightarrow> 't world \<Rightarrow> 't world" where
  "accounted sides data start w =
     w\<lparr>throttle_objs :=
         (\<lambda>r. ((\<lambda>t. Throttle_append t data start) ^^ count_list sides r) (throttle_objs w r))\<rparr>"

subsection \<open>Example objects\<close>

text \<open>
  A world with two throttles: number 0 is limited to 100 bytes per second and has counted
  250 bytes since time 3, number 1 is unlimited. The dictionary at reference 1 holds them
  as the pair \<^verbatim>\<open>"main"\<close>; the dictionary at reference 0, the default of
  \<^verbatim>\<open>ThrottleStreamIO.__init__\<close>, is empty. The loop time is 4.
\<close>

definition example_world :: "unit world" where
  "example_world =
     \<lparr>throttle_objs = (\<lambda>r. Throttle_init None 10)
        (0 := \<lparr>t_limit = Some 100, reset_rate = 10, t_start = Some 3, t_sum = 250\<rparr>,
         1 := \<lparr>t_limit = None, reset_rate = 5, t_start = None, t_sum = 0\<rparr>),
      next_ref = 2,
      dict_objs = (\<lambda>r. [])(1 := [(''main'', \<lparr>read = 0, write' = 1\<rparr>)]),
      loop_time = 4,
      transport = ()\<rparr>"

text \<open>
  An event loop and a transport for examples: waiting for throttle tasks takes one second,
  every read returns \<^verbatim>\<open>b"abc"\<close>, every \<^verbatim>\<open>readline\<close> returns \<^verbatim>\<open>b"line"\<close>, and each transfer
  takes two seconds.
\<close>

definition example_asyncio :: "unit asyncio" where
  "example_asyncio =
     \<lparr>asyncio_wait = (\<lambda>tasks w. w\<lparr>loop_time := loop_time w + 1\<rparr>),
      reader_read = (\<lambda>count w.
        \<lparr>co_duration = 2, co_result = Inr ''abc'', co_after = w\<lparr>loop_time := loop_time w + 2\<rparr>,
         co_cancelled = (\<lambda>t. w\<lparr>loop_time := loop_time w + t\<rparr>)\<rparr>),
      reader_readline = (\<lambda>w.
        \<lparr>co_duration = 2, co_result = Inr ''line'', co_after = w\<lparr>loop_time := loop_time w + 2\<rparr>,
         co_cancelled = (\<lambda>t. w\<lparr>loop_time := loop_time w + t\<rparr>)\<rparr>),
      writer_write_drain = (\<lambda>data w.
        \<lparr>co_duration = 2, co_result = Inr (), co_after = w\<lparr>loop_time := loop_time w + 2\<rparr>,
         co_cancelled = (\<lambda>t. w\<lparr>loop_time := loop_time w + t\<rparr>)\<rparr>)\<rparr>"

text \<open>
  Two streams over the dictionary at reference 1, without a timeout and with a timeout of
  one second; two streams constructed without \<^verbatim>\<open>throttles\<close>; and the world after the pair
  \<^verbatim>\<open>"shared"\<close> has been inserted through the first of these.
\<close>

definition example_stream :: ThrottleStreamIO where
  "example_stream = ThrottleStreamIO_init (Some 1) None None None"

definition example_stream_timed :: ThrottleStreamIO where
  "example_stream_timed = ThrottleStreamIO_init (Some 1) (Some 1) None None"

definition example_first :: ThrottleStreamIO where
  "example_first = ThrottleStreamIO_init None None None None"

definition example_second :: ThrottleStreamIO where
  "example_second = ThrottleStreamIO_init None (Some 30) None None"

definition example_shared_world :: "unit world" where
  "example_shared_world =
     throttles_setitem example_first ''shared'' \<lparr>read = 0, write' = 1\<rparr> example_world"

section \<open>Properties\<close>

subsection \<open>Throttle.wait\<close>




subsection \<open>Throttle.append\<close>

lemma float_sub_self: "float_sub x x = 0"
  by (simp add: float_sub_def round_double_def)

lemma float_sub_examples:
  "float_sub (25 / 2) 0 = 25 / 2"
  "float_sub 10 0 = 10"
  "float_sub 5 3 = 2"
  "float_sub (2589569785738035 / 2251799813685248) 0 = 2589569785738035 / 2251799813685248"
  "float_sub 16 (6755399441055743 / 1125899906842624) = 10"
  by code_simp+

lemma py_round_examples:
  "py_round (float_mul (25 / 2) (float_of_int 1)) = 12"
  "py_round (float_mul (2589569785738035 / 2251799813685248) (float_of_int 10)) = 12"
  by code_simp+

text \<open>
  C2. For a throttle with a positive limit \<open>l\<close> whose window start \<open>s\<close> is set, with
  the difference \<open>observed - s\<close> and its product with the limit as the code computes
  them, in floats: when \<open>append(data, observed)\<close> is called with
  \<open>observed - s > reset_rate\<close>, the accumulated count becomes the prior one minus
  \<open>round((observed - s) * l)\<close> plus \<open>len(data)\<close> and the window start becomes
  \<open>observed\<close>; when \<open>observed - s \<le> reset_rate\<close>, the count grows by \<open>len(data)\<close>
  only and the window start stays. The limit and the reset rate are never touched.
\<close>

theorem Throttle_append_drift:
  assumes "t_limit t = Some l" and "0 < l" and "t_start t = Some s"
  shows "(reset_rate t < float_sub observed s \<longrightarrow>
            t_sum (Throttle_append t data observed) =
              t_sum t - py_round (float_mul (float_sub observed s) (float_of_int l)) +
              int (length data) \<and>
            t_start (Throttle_append t data observed) = Some observed) \<and>
         (float_sub observed s \<le> reset_rate t \<longrightarrow>
            t_sum (Throttle_append t data observed) = t_sum t + int (length data) \<and>
            t_start (Throttle_append t data observed) = t_start t) \<and>
         t_limit (Throttle_append t data observed) = t_limit t \<and>
         reset_rate (Throttle_append t data observed) = reset_rate t"
  using assms by (simp add: Throttle_append_def Let_def)

text \<open>
  One byte per second, window opened at time 0 with 500 bytes counted: an append of three
  bytes observed at 12.5 is beyond the reset rate of 10 (and 12.5 rounds to the even 12),
  one observed at 10 is not. Ten bytes per second and a reset rate of 1, observed at the
  float 1.15, which is a little less than 1.15: the product is the float 11.5, and the
  count goes down by 12. A window opened at \<open>6 - 2 ^ -50\<close> and an append observed at 16
  with a reset rate of 10: the difference is the float 10, and there is no correction.
\<close>

theorem Throttle_append_drift_witness:
  "t_sum (Throttle_append \<lparr>t_limit = Some 1, reset_rate = 10, t_start = Some 0, t_sum = 500\<rparr>
            ''abc'' (25 / 2)) = 491 \<and>
   t_start (Throttle_append \<lparr>t_limit = Some 1, reset_rate = 10, t_start = Some 0, t_sum = 500\<rparr>
            ''abc'' (25 / 2)) = Some (25 / 2) \<and>
   t_sum (Throttle_append \<lparr>t_limit = Some 1, reset_rate = 10, t_start = Some 0, t_sum = 500\<rparr>
            ''abc'' 10) = 503 \<and>
   t_start (Throttle_append \<lparr>t_limit = Some 1, reset_rate = 10, t_start = Some 0, t_sum = 500\<rparr>
            ''abc'' 10) = Some 0 \<and>
   t_sum (Throttle_append \<lparr>t_limit = Some 10, reset_rate = 1, t_start = Some 0, t_sum = 0\<rparr>
            [] (2589569785738035 / 2251799813685248)) = - 12 \<and>
   t_start (Throttle_append \<lparr>t_limit = Some 10, reset_rate = 1, t_start = Some 0, t_sum = 0\<rparr>
            [] (2589569785738035 / 2251799813685248)) =
     Some (2589569785738035 / 2251799813685248) \<and>
   t_sum (Throttle_append
            \<lparr>t_limit = Some 100, reset_rate = 10,
             t_start = Some (6755399441055743 / 1125899906842624), t_sum = 0\<rparr>
            ''abc'' 16) = 3 \<and>
   t_start (Throttle_append
            \<lparr>t_limit = Some 100, reset_rate = 10,
             t_start = Some (6755399441055743 / 1125899906842624), t_sum = 0\<rparr>
            ''abc'' 16) = Some (6755399441055743 / 1125899906842624)"
  using Throttle_append_drift [of "\<lparr>t_limit = Some 1, reset_rate = 10, t_start = Some 0, t_sum = 500\<rparr>"
      1 0 "25 / 2" "''abc''"]
    Throttle_append_drift [of "\<lparr>t_limit = Some 1, reset_rate = 10, t_start = Some 0, t_sum = 500\<rparr>"
      1 0 10 "''abc''"]
    Throttle_append_drift [of "\<lparr>t_limit = Some 10, reset_rate = 1, t_start = Some 0, t_sum = 0\<rparr>"
      10 0 "2589569785738035 / 2251799813685248" "[]"]
    Throttle_append_drift [of
      "\<lparr>t_limit = Some 100, reset_rate = 10,
        t_start = Some (6755399441055743 / 1125899906842624), t_sum = 0\<rparr>"
      100 "6755399441055743 / 1125899906842624" 16 "''abc''"]
  by (simp add: float_sub_examples py_round_examples)

subsection \<open>The limit setter\<close>

text \<open>
  C5. Whatever the state of a throttle, assigning \<open>v\<close> to its \<open>limit\<close> sets the limit to
  \<open>v\<close>, the window start to unset and the accumulated count to zero (the reset rate
  stays), and a \<open>wait()\<close> right after it, at any clock reading, returns without sleeping
  and without changing the throttle.
\<close>

theorem Throttle_set_limit_resets:
  "t_limit (Throttle_set_limit t v) = v \<and>
   t_start (Throttle_set_limit t v) = None \<and>
   t_sum (Throttle_set_limit t v) = 0 \<and>
   reset_rate (Throttle_set_limit t v) = reset_rate t \<and>
   Throttle_wait (Throttle_set_limit t v) now = (None, Throttle_set_limit t v)"
  by (simp add: Throttle_set_limit_def Throttle_wait_def split: option.splits)

subsection \<open>StreamIO.__init__\<close>

text \<open>
  C9 says that a \<open>read_timeout\<close> (a \<open>write_timeout\<close>) that is supplied is the resulting
  timeout. The constructor computes \<^verbatim>\<open>read_timeout or timeout\<close>, and \<^verbatim>\<open>or\<close> passes over a
  supplied zero as it does over \<^verbatim>\<open>None\<close>: with \<open>timeout = 5\<close> a supplied zero gives 5, and
  with no \<open>timeout\<close> it gives \<^verbatim>\<open>None\<close>, no deadline at all.
\<close>

theorem StreamIO_init_zero_timeout:
  "read_timeout (StreamIO_init (Some 5) (Some 0) None) = Some 5 \<and>
   write_timeout (StreamIO_init (Some 5) None (Some 0)) = Some 5 \<and>
   read_timeout (StreamIO_init None (Some 0) None) = None"
  by (simp add: StreamIO_init_def py_or_def truthy_def)

subsection \<open>clone\<close>

text \<open>
  C6. Cloning a throttle that exists in the store, whatever it has counted, creates a new
  object at a reference no object had before; the clone has the limit and the reset rate
  of the original, no window start and a count of zero, and every object that existed,
  the original among them, is as it was. Cloning a pair clones its read side and its write
  side in this way, into two new objects.
\<close>

theorem clone_memoryless:
  "(self < next_ref w \<longrightarrow>
      (case Throttle_clone self w of
         (c, w') \<Rightarrow>
           c = next_ref w \<and> c \<noteq> self \<and>
           throttle_objs w' c =
             \<lparr>t_limit = t_limit (throttle_objs w self),
              reset_rate = reset_rate (throttle_objs w self), t_start = None, t_sum = 0\<rparr> \<and>
           (\<forall>r. r < next_ref w \<longrightarrow> throttle_objs w' r = throttle_objs w r) \<and>
           next_ref w' = Suc (next_ref w) \<and> dict_objs w' = dict_objs w)) \<and>
   (read p < next_ref w \<and> write' p < next_ref w \<longrightarrow>
      (case StreamThrottle_clone p w of
         (p', w') \<Rightarrow>
           read p' = next_ref w \<and> write' p' = Suc (next_ref w) \<and>
           throttle_objs w' (read p') =
             \<lparr>t_limit = t_limit (throttle_objs w (read p)),
              reset_rate = reset_rate (throttle_objs w (read p)), t_start = None, t_sum = 0\<rparr> \<and>
           throttle_objs w' (write' p') =
             \<lparr>t_limit = t_limit (throttle_objs w (write' p)),
              reset_rate = reset_rate (throttle_objs w (write' p)), t_start = None, t_sum = 0\<rparr> \<and>
           (\<forall>r. r < next_ref w \<longrightarrow> throttle_objs w' r = throttle_objs w r) \<and>
           next_ref w' = Suc (Suc (next_ref w)) \<and> dict_objs w' = dict_objs w))"
  by (simp add: Throttle_clone_def StreamThrottle_clone_def new_Throttle_def Throttle_init_def
      Let_def split: prod.splits)

theorem clone_memoryless_witness:
  "(case Throttle_clone 0 example_world of
      (c, w') \<Rightarrow>
        c = 2 \<and>
        throttle_objs w' c = \<lparr>t_limit = Some 100, reset_rate = 10, t_start = None, t_sum = 0\<rparr> \<and>
        throttle_objs w' 0 = \<lparr>t_limit = Some 100, reset_rate = 10, t_start = Some 3, t_sum = 250\<rparr>) \<and>
   (case StreamThrottle_clone \<lparr>read = 0, write' = 1\<rparr> example_world of
      (p', w') \<Rightarrow>
        p' = \<lparr>read = 2, write' = 3\<rparr> \<and>
        throttle_objs w' 2 = \<lparr>t_limit = Some 100, reset_rate = 10, t_start = None, t_sum = 0\<rparr> \<and>
        throttle_objs w' 3 = \<lparr>t_limit = None, reset_rate = 5, t_start = None, t_sum = 0\<rparr> \<and>
        throttle_objs w' 0 = \<lparr>t_limit = Some 100, reset_rate = 10, t_start = Some 3, t_sum = 250\<rparr> \<and>
        throttle_objs w' 1 = \<lparr>t_limit = None, reset_rate = 5, t_start = None, t_sum = 0\<rparr>)"
  using clone_memoryless [of 0 example_world "\<lparr>read = 0, write' = 1\<rparr>"]
  by (auto simp: example_world_def split: prod.splits)

subsection \<open>Async iteration\<close>

text \<open>
  An iteration whose first \<open>n\<close> steps yield the items \<open>xs\<close> and whose next step raises
  ends there: with the collected items on \<^verbatim>\<open>StopAsyncIteration\<close>, with the exception
  otherwise.
\<close>

lemma async_for_take_steps:
  assumes "take_steps anext n s = Some (xs, s1)" and "anext s1 = (Inl e, s2)"
  shows "async_for anext s items =
           Some (if e = StopAsyncIteration then Inr (items @ xs) else Inl e, s2)"
  using assms
proof (induction n arbitrary: s items xs)
  case 0
  then show ?case by (simp add: async_for.simps)
next
  case (Suc n)
  from Suc.prems(1) obtain item s' ys where
    step: "anext s = (Inr item, s')" and
    rest: "take_steps anext n s' = Some (ys, s1)" and
    xs: "xs = item # ys"
    by (auto split: prod.splits sum.splits option.splits)
  have "async_for anext s items = async_for anext s' (items @ [item])"
    using step by (subst async_for.simps) simp
  also have "\<dots> = Some (if e = StopAsyncIteration then Inr ((items @ [item]) @ ys) else Inl e, s2)"
    using Suc.IH [OF rest Suc.prems(2)] .
  finally show ?case by (simp add: xs)
qed

lemma take_steps_scripted:
  assumes "\<forall>c \<in> set chunks. c \<noteq> []"
  shows "take_steps (AsyncStreamIterator_anext scripted_read) (length chunks) (chunks @ rest) =
           Some (chunks, rest)"
  using assms by (induction chunks) (simp_all add: AsyncStreamIterator_anext_def)

text \<open>
  C8, as the code has it. Each step of a stream iterator calls the read operation once; a
  non-empty result is the next element, an empty one raises \<^verbatim>\<open>StopAsyncIteration\<close>. An
  iteration therefore yields the results before the first empty one and leaves the read
  operation in the state right after that empty result: no further read is issued in this
  iteration. A source that returns \<open>a\<close>, \<open>b\<close> and the empty result yields exactly
  \<open>[a, b]\<close>. The iterator keeps no state of its own, so iterating the same instance
  again does not restart anything: it issues the next read and goes on from where the read
  operation stands, and it yields nothing when that read is empty again, as it is for a
  source at its end.
\<close>

theorem AsyncStreamIterator_traversal:
  "(read_coro w = (Inr data, w') \<and> data \<noteq> [] \<longrightarrow>
      AsyncStreamIterator_anext read_coro w = (Inr data, w')) \<and>
   (read_coro w = (Inr [], w') \<longrightarrow>
      AsyncStreamIterator_anext read_coro w = (Inl StopAsyncIteration, w')) \<and>
   (take_steps (AsyncStreamIterator_anext read_coro) n w = Some (xs, w1) \<and>
    read_coro w1 = (Inr [], w2) \<longrightarrow>
      async_for (AsyncStreamIterator_anext read_coro) w [] = Some (Inr xs, w2)) \<and>
   ((\<forall>c \<in> set chunks. c \<noteq> []) \<longrightarrow>
      async_for (AsyncStreamIterator_anext scripted_read) (chunks @ [] # rest) [] =
        Some (Inr chunks, rest)) \<and>
   async_for (AsyncStreamIterator_anext scripted_read) [''a'', ''b'', []] [] =
     Some (Inr [''a'', ''b''], []) \<and>
   async_for (AsyncStreamIterator_anext scripted_read) [] [] = Some (Inr [], [])"
proof (intro conjI impI)
  show "AsyncStreamIterator_anext read_coro w = (Inr data, w')"
    if "read_coro w = (Inr data, w') \<and> data \<noteq> []"
    using that by (simp add: AsyncStreamIterator_anext_def)
  show "AsyncStreamIterator_anext read_coro w = (Inl StopAsyncIteration, w')"
    if "read_coro w = (Inr [], w')"
    using that by (simp add: AsyncStreamIterator_anext_def)
  show "async_for (AsyncStreamIterator_anext read_coro) w [] = Some (Inr xs, w2)"
    if h: "take_steps (AsyncStreamIterator_anext read_coro) n w = Some (xs, w1) \<and>
       read_coro w1 = (Inr [], w2)"
  proof -
    have "AsyncStreamIterator_anext read_coro w1 = (Inl StopAsyncIteration, w2)"
      using h by (simp add: AsyncStreamIterator_anext_def)
    with h show ?thesis
      using async_for_take_steps [of "AsyncStreamIterator_anext read_coro" n w xs w1
          StopAsyncIteration w2 "[]"]
      by simp
  qed
  show "async_for (AsyncStreamIterator_anext scripted_read) (chunks @ [] # rest) [] =
      Some (Inr chunks, rest)"
    if h: "\<forall>c \<in> set chunks. c \<noteq> []"
  proof -
    have "AsyncStreamIterator_anext scripted_read ([] # rest) = (Inl StopAsyncIteration, rest)"
      by (simp add: AsyncStreamIterator_anext_def)
    then show ?thesis
      using async_for_take_steps [OF take_steps_scripted [OF h, of "[] # rest"], of
          StopAsyncIteration rest "[]"]
      by simp
  qed
  show "async_for (AsyncStreamIterator_anext scripted_read) [''a'', ''b'', []] [] =
      Some (Inr [''a'', ''b''], [])"
    by (simp add: async_for.simps AsyncStreamIterator_anext_def)
  show "async_for (AsyncStreamIterator_anext scripted_read) [] [] = Some (Inr [], [])"
    by (simp add: async_for.simps AsyncStreamIterator_anext_def)
qed

theorem AsyncStreamIterator_traversal_witness:
  "AsyncStreamIterator_anext scripted_read [''a'', ''b'', []] = (Inr ''a'', [''b'', []]) \<and>
   AsyncStreamIterator_anext scripted_read [[], ''c''] = (Inl StopAsyncIteration, [''c'']) \<and>
   async_for (AsyncStreamIterator_anext scripted_read) [''a'', ''b'', [], ''c'', []] [] =
     Some (Inr [''a'', ''b''], [''c'', []])"
  using AsyncStreamIterator_traversal [of scripted_read "[''a'', ''b'', []]" "''a''" "[''b'', []]"
      0 "[]" "[]" "[]" "[]" "[]"]
    AsyncStreamIterator_traversal [of scripted_read "[[], ''c'']" "''a''" "[''c'']"
      2 "[''a'', ''b'']" "[[], ''c'', []]" "[''c'', []]" "[''a'', ''b'']" "[''c'', []]"]
    AsyncStreamIterator_traversal [of scripted_read "[''a'', ''b'', [], ''c'', []]" "''a''" "[''c'']"
      2 "[''a'', ''b'']" "[[], ''c'', []]" "[''c'', []]" "[''a'', ''b'']" "[''c'', []]"]
  by (simp add: AsyncStreamIterator_anext_def numeral_2_eq_2)

text \<open>
  C8 as it is written has the iterator stay exhausted when it is iterated again, with no
  read issued after the first empty result. Over a read operation that returns \<open>a\<close>,
  \<open>b\<close>, empty, \<open>c\<close>, empty, the first iteration yields \<open>[a, b]\<close> and the second
  iteration of the same instance reads again and yields \<open>[c]\<close>.
\<close>

theorem AsyncStreamIterator_again_counterexample:
  "async_for (AsyncStreamIterator_anext scripted_read) [''a'', ''b'', [], ''c'', []] [] =
     Some (Inr [''a'', ''b''], [''c'', []]) \<and>
   async_for (AsyncStreamIterator_anext scripted_read) [''c'', []] [] =
     Some (Inr [''c''], [])"
  by (simp add: async_for.simps AsyncStreamIterator_anext_def)

subsection \<open>AbstractAsyncLister\<close>




subsection \<open>ThrottleStreamIO\<close>

text \<open>
  The loops of \<open>wait\<close> and \<open>append\<close> for the two names the stream uses.
\<close>

lemma getattr_throttle_simps:
  "getattr_throttle p ''read'' = Inr (read p)"
  "getattr_throttle p ''write'' = Inr (write' p)"
  by (simp_all add: getattr_throttle_def)

lemma wait_loop_read:
  "wait_loop pairs ''read'' w tasks = Inr (tasks @ waited (map read pairs) w)"
  by (induction pairs arbitrary: tasks) (simp_all add: getattr_throttle_simps waited_def)

lemma wait_loop_write:
  "wait_loop pairs ''write'' w tasks = Inr (tasks @ waited (map write' pairs) w)"
  by (induction pairs arbitrary: tasks) (simp_all add: getattr_throttle_simps waited_def)

lemma accounted_Cons:
  "accounted rs data start
     (w\<lparr>throttle_objs := (throttle_objs w)(r := Throttle_append (throttle_objs w r) data start)\<rparr>) =
   accounted (r # rs) data start w"
proof -
  have "((\<lambda>t. Throttle_append t data start) ^^ count_list rs x)
          (((throttle_objs w)(r := Throttle_append (throttle_objs w r) data start)) x) =
        ((\<lambda>t. Throttle_append t data start) ^^ count_list (r # rs) x) (throttle_objs w x)" for x
    using funpow_swap1 [of "\<lambda>t. Throttle_append t data start" "count_list rs r"
        "throttle_objs w r"]
    by (cases "x = r") simp_all
  then show ?thesis
    by (simp add: accounted_def)
qed

lemma accounted_Nil: "accounted [] data start w = w"
  by (simp add: accounted_def)

lemma append_loop_read:
  "append_loop pairs ''read'' data start w = Inr (accounted (map read pairs) data start w)"
  by (induction pairs arbitrary: w)
    (simp_all add: getattr_throttle_simps accounted_Nil accounted_Cons)

lemma append_loop_write:
  "append_loop pairs ''write'' data start w = Inr (accounted (map write' pairs) data start w)"
  by (induction pairs arbitrary: w)
    (simp_all add: getattr_throttle_simps accounted_Nil accounted_Cons)

lemma Throttle_append_unlimited:
  "t_limit t = None \<or> (\<exists>l. t_limit t = Some l \<and> l \<le> 0) \<Longrightarrow> Throttle_append t data start = t"
  by (auto simp: Throttle_append_def)

lemma ThrottleStreamIO_wait_read:
  "ThrottleStreamIO_wait io self ''read'' w =
     Inr (let tasks = waited (map read (dict_values (dict_objs w (throttles self)))) w
          in if tasks \<noteq> [] then asyncio_wait io tasks w else w)"
  by (simp add: ThrottleStreamIO_wait_def wait_loop_read Let_def)

lemma ThrottleStreamIO_wait_write:
  "ThrottleStreamIO_wait io self ''write'' w =
     Inr (let tasks = waited (map write' (dict_values (dict_objs w (throttles self)))) w
          in if tasks \<noteq> [] then asyncio_wait io tasks w else w)"
  by (simp add: ThrottleStreamIO_wait_def wait_loop_write Let_def)

text \<open>
  C4. In \<open>read\<close>, \<open>readline\<close> and \<open>write\<close> of a throttled stream the wait always
  completes without an exception; the start time is the loop time of the world the wait
  has left, in which the raw operation of \<^verbatim>\<open>StreamIO\<close> begins. When the raw operation
  raises, the exception is passed on and the world is the one the operation left: nothing
  is accounted. When it returns, \<open>append\<close> is called with the data returned (for
  \<open>write\<close>: the data passed) and this start time on the read side (the write side) of
  every pair of the dictionary as it is then; the requested count plays no part. An
  \<open>append\<close> on a throttle without a positive limit changes nothing; one on a limited
  throttle within its reset window (the difference of the times as the code computes it,
  in floats), and one on a limited throttle that has counted nothing yet and has a reset
  rate that is not negative, which opens the window at this start time, add exactly
  \<open>len(data)\<close> to the count.
\<close>

theorem throttled_io_accounting:
  "(ThrottleStreamIO_wait io self ''read'' w = Inr w1 \<and> StreamIO_read io self count w1 = (r, w2) \<longrightarrow>
      ThrottleStreamIO_read io self count w =
        (case r of
           Inl e \<Rightarrow> (Inl e, w2)
         | Inr got \<Rightarrow>
             (Inr got,
              accounted (map read (dict_values (dict_objs w2 (throttles self)))) got
                (loop_time w1) w2))) \<and>
   (ThrottleStreamIO_wait io self ''read'' w = Inr w1 \<and> StreamIO_readline io self w1 = (r, w2) \<longrightarrow>
      ThrottleStreamIO_readline io self w =
        (case r of
           Inl e \<Rightarrow> (Inl e, w2)
         | Inr got \<Rightarrow>
             (Inr got,
              accounted (map read (dict_values (dict_objs w2 (throttles self)))) got
                (loop_time w1) w2))) \<and>
   (ThrottleStreamIO_wait io self ''write'' w = Inr w1 \<and> StreamIO_write io self data w1 = (u, w2) \<longrightarrow>
      ThrottleStreamIO_write io self data w =
        (case u of
           Inl e \<Rightarrow> (Inl e, w2)
         | Inr u' \<Rightarrow>
             (Inr (),
              accounted (map write' (dict_values (dict_objs w2 (throttles self)))) data
                (loop_time w1) w2))) \<and>
   (\<exists>w1. ThrottleStreamIO_wait io self ''read'' w = Inr w1) \<and>
   (\<exists>w1. ThrottleStreamIO_wait io self ''write'' w = Inr w1) \<and>
   (t_limit t = None \<or> (\<exists>l. t_limit t = Some l \<and> l \<le> 0) \<longrightarrow>
      Throttle_append t data start = t) \<and>
   (\<forall>l s. t_limit t = Some l \<and> 0 < l \<and> t_start t = Some s \<and>
      float_sub start s \<le> reset_rate t \<longrightarrow>
      t_sum (Throttle_append t data start) = t_sum t + int (length data)) \<and>
   (\<forall>l. t_limit t = Some l \<and> 0 < l \<and> t_start t = None \<and> 0 \<le> reset_rate t \<longrightarrow>
      t_sum (Throttle_append t data start) = t_sum t + int (length data) \<and>
      t_start (Throttle_append t data start) = Some start)"
proof (intro conjI impI allI)
  show "ThrottleStreamIO_read io self count w =
        (case r of
           Inl e \<Rightarrow> (Inl e, w2)
         | Inr got \<Rightarrow>
             (Inr got,
              accounted (map read (dict_values (dict_objs w2 (throttles self)))) got
                (loop_time w1) w2))"
    if "ThrottleStreamIO_wait io self ''read'' w = Inr w1 \<and> StreamIO_read io self count w1 = (r, w2)"
    using that
    by (simp add: ThrottleStreamIO_read_def ThrottleStreamIO_append_def append_loop_read
        split: sum.splits)
  show "ThrottleStreamIO_readline io self w =
        (case r of
           Inl e \<Rightarrow> (Inl e, w2)
         | Inr got \<Rightarrow>
             (Inr got,
              accounted (map read (dict_values (dict_objs w2 (throttles self)))) got
                (loop_time w1) w2))"
    if "ThrottleStreamIO_wait io self ''read'' w = Inr w1 \<and> StreamIO_readline io self w1 = (r, w2)"
    using that
    by (simp add: ThrottleStreamIO_readline_def ThrottleStreamIO_append_def append_loop_read
        split: sum.splits)
  show "ThrottleStreamIO_write io self data w =
        (case u of
           Inl e \<Rightarrow> (Inl e, w2)
         | Inr u' \<Rightarrow>
             (Inr (),
              accounted (map write' (dict_values (dict_objs w2 (throttles self)))) data
                (loop_time w1) w2))"
    if "ThrottleStreamIO_wait io self ''write'' w = Inr w1 \<and> StreamIO_write io self data w1 = (u, w2)"
    using that
    by (simp add: ThrottleStreamIO_write_def ThrottleStreamIO_append_def append_loop_write
        split: sum.splits)
  show "\<exists>w1. ThrottleStreamIO_wait io self ''read'' w = Inr w1"
    by (simp add: ThrottleStreamIO_wait_read)
  show "\<exists>w1. ThrottleStreamIO_wait io self ''write'' w = Inr w1"
    by (simp add: ThrottleStreamIO_wait_write)
  show "Throttle_append t data start = t"
    if "t_limit t = None \<or> (\<exists>l. t_limit t = Some l \<and> l \<le> 0)"
    using that by (rule Throttle_append_unlimited)
  show "t_sum (Throttle_append t data start) = t_sum t + int (length data)"
    if "t_limit t = Some l \<and> 0 < l \<and> t_start t = Some s \<and>
        float_sub start s \<le> reset_rate t" for l s
    using that by (simp add: Throttle_append_def Let_def)
  show "t_sum (Throttle_append t data start) = t_sum t + int (length data)"
    if "t_limit t = Some l \<and> 0 < l \<and> t_start t = None \<and> 0 \<le> reset_rate t" for l
    using that by (simp add: Throttle_append_def Let_def float_sub_self)
  show "t_start (Throttle_append t data start) = Some start"
    if "t_limit t = Some l \<and> 0 < l \<and> t_start t = None \<and> 0 \<le> reset_rate t" for l
    using that by (simp add: Throttle_append_def Let_def float_sub_self)
qed

lemma example_wait_read:
  "ThrottleStreamIO_wait example_asyncio example_stream ''read'' example_world =
     Inr (example_world\<lparr>loop_time := 5\<rparr>)"
  by (simp add: ThrottleStreamIO_wait_read example_stream_def ThrottleStreamIO_init_def
      StreamIO_init_def example_world_def example_asyncio_def dict_values_def waited_def
      truthy_def Let_def)


lemma example_wait_read_timed:
  "ThrottleStreamIO_wait example_asyncio example_stream_timed ''read'' example_world =
     Inr (example_world\<lparr>loop_time := 5\<rparr>)"
  by (simp add: ThrottleStreamIO_wait_read example_stream_timed_def ThrottleStreamIO_init_def
      StreamIO_init_def example_world_def example_asyncio_def dict_values_def waited_def
      truthy_def Let_def)

lemma example_wait_write:
  "ThrottleStreamIO_wait example_asyncio example_stream ''write'' example_world =
     Inr example_world"
  by (simp add: ThrottleStreamIO_wait_write example_stream_def ThrottleStreamIO_init_def
      StreamIO_init_def example_world_def example_asyncio_def dict_values_def waited_def
      truthy_def Let_def)

lemma example_StreamIO_read:
  "StreamIO_read example_asyncio example_stream 8192 (example_world\<lparr>loop_time := 5\<rparr>) =
     (Inr ''abc'', example_world\<lparr>loop_time := 7\<rparr>)"
  by (simp add: StreamIO_read_def with_timeout_def wait_for_def await_def Let_def
      example_stream_def ThrottleStreamIO_init_def StreamIO_init_def py_or_def truthy_def
      example_asyncio_def example_world_def)

lemma example_StreamIO_read_timed:
  "StreamIO_read example_asyncio example_stream_timed 8192 (example_world\<lparr>loop_time := 5\<rparr>) =
     (Inl TimeoutError, example_world\<lparr>loop_time := 6\<rparr>)"
  by (simp add: StreamIO_read_def with_timeout_def wait_for_def await_def Let_def
      example_stream_timed_def ThrottleStreamIO_init_def StreamIO_init_def py_or_def truthy_def
      example_asyncio_def example_world_def)

lemma example_StreamIO_write:
  "StreamIO_write example_asyncio example_stream ''hello'' example_world =
     (Inr (), example_world\<lparr>loop_time := 6\<rparr>)"
  by (simp add: StreamIO_write_def with_timeout_def wait_for_def await_def Let_def
      example_stream_def ThrottleStreamIO_init_def StreamIO_init_def py_or_def truthy_def
      example_asyncio_def example_world_def)

text \<open>
  A read of up to 8192 bytes that returns three: the limited read throttle counts 253
  bytes instead of 250. With a timeout of one second the read is cancelled and the count
  stays at 250. A write accounts on the write side, which is unlimited here. A throttle
  limited to 100 bytes per second that has counted nothing counts the five bytes of its
  first append and opens its window at the start time.
\<close>

theorem throttled_io_accounting_witness:
  "fst (ThrottleStreamIO_read example_asyncio example_stream 8192 example_world) = Inr ''abc'' \<and>
   throttle_objs (snd (ThrottleStreamIO_read example_asyncio example_stream 8192 example_world)) 0 =
     \<lparr>t_limit = Some 100, reset_rate = 10, t_start = Some 3, t_sum = 253\<rparr> \<and>
   loop_time (snd (ThrottleStreamIO_read example_asyncio example_stream 8192 example_world)) = 7 \<and>
   fst (ThrottleStreamIO_read example_asyncio example_stream_timed 8192 example_world) =
     Inl TimeoutError \<and>
   throttle_objs
     (snd (ThrottleStreamIO_read example_asyncio example_stream_timed 8192 example_world)) 0 =
     \<lparr>t_limit = Some 100, reset_rate = 10, t_start = Some 3, t_sum = 250\<rparr> \<and>
   fst (ThrottleStreamIO_write example_asyncio example_stream ''hello'' example_world) = Inr () \<and>
   throttle_objs
     (snd (ThrottleStreamIO_write example_asyncio example_stream ''hello'' example_world)) 1 =
     \<lparr>t_limit = None, reset_rate = 5, t_start = None, t_sum = 0\<rparr> \<and>
   t_sum (Throttle_append \<lparr>t_limit = Some 100, reset_rate = 10, t_start = None, t_sum = 0\<rparr>
            ''hello'' 4) = 5 \<and>
   t_start (Throttle_append \<lparr>t_limit = Some 100, reset_rate = 10, t_start = None, t_sum = 0\<rparr>
            ''hello'' 4) = Some 4"
proof -
  have dict: "dict_objs example_world (throttles example_stream) =
      [(''main'', \<lparr>read = 0, write' = 1\<rparr>)]"
    "dict_objs example_world (throttles example_stream_timed) =
      [(''main'', \<lparr>read = 0, write' = 1\<rparr>)]"
    by (simp_all add: example_world_def example_stream_def example_stream_timed_def
        ThrottleStreamIO_init_def Let_def)
  have objs: "throttle_objs example_world 0 =
      \<lparr>t_limit = Some 100, reset_rate = 10, t_start = Some 3, t_sum = 250\<rparr>"
    "throttle_objs example_world (Suc 0) =
      \<lparr>t_limit = None, reset_rate = 5, t_start = None, t_sum = 0\<rparr>"
    by (simp_all add: example_world_def)
  have now: "loop_time example_world = 4"
    by (simp add: example_world_def)
  have rd: "ThrottleStreamIO_read example_asyncio example_stream 8192 example_world =
      (Inr ''abc'', accounted [0] ''abc'' 5 (example_world\<lparr>loop_time := 7\<rparr>))"
    using throttled_io_accounting [where io = example_asyncio and self = example_stream
        and w = example_world and ?w1.0 = "example_world\<lparr>loop_time := 5\<rparr>" and count = 8192
        and r = "Inr ''abc''" and ?w2.0 = "example_world\<lparr>loop_time := 7\<rparr>"]
      example_wait_read example_StreamIO_read
    by (simp add: dict dict_values_def)
  have rdt: "ThrottleStreamIO_read example_asyncio example_stream_timed 8192 example_world =
      (Inl TimeoutError, example_world\<lparr>loop_time := 6\<rparr>)"
    using throttled_io_accounting [where io = example_asyncio and self = example_stream_timed
        and w = example_world and ?w1.0 = "example_world\<lparr>loop_time := 5\<rparr>" and count = 8192
        and r = "Inl TimeoutError" and ?w2.0 = "example_world\<lparr>loop_time := 6\<rparr>"]
      example_wait_read_timed example_StreamIO_read_timed
    by simp
  have wr: "ThrottleStreamIO_write example_asyncio example_stream ''hello'' example_world =
      (Inr (), accounted [1] ''hello'' 4 (example_world\<lparr>loop_time := 6\<rparr>))"
    using throttled_io_accounting [where io = example_asyncio and self = example_stream
        and w = example_world and ?w1.0 = example_world and data = "''hello''"
        and u = "Inr ()" and ?w2.0 = "example_world\<lparr>loop_time := 6\<rparr>"]
      example_wait_write example_StreamIO_write
    by (simp add: dict dict_values_def now)
  have fresh: "t_sum (Throttle_append
        \<lparr>t_limit = Some 100, reset_rate = 10, t_start = None, t_sum = 0\<rparr> ''hello'' 4) = 5 \<and>
      t_start (Throttle_append
        \<lparr>t_limit = Some 100, reset_rate = 10, t_start = None, t_sum = 0\<rparr> ''hello'' 4) = Some 4"
    using throttled_io_accounting [where
        t = "\<lparr>t_limit = Some 100, reset_rate = 10, t_start = None, t_sum = 0\<rparr>"
        and data = "''hello''" and start = 4 and io = example_asyncio and self = example_stream
        and w = example_world and ?w1.0 = example_world and ?w2.0 = example_world
        and count = 0 and r = "Inr []" and u = "Inr ()"]
    by simp
  show ?thesis
    using fresh
    by (simp add: rd rdt wr accounted_def objs Throttle_append_def Let_def
        float_sub_examples float_sub_self)
qed

subsection \<open>The default dictionary of ThrottleStreamIO\<close>

lemma map_of_dict_setitem: "map_of (dict_setitem d k v) k' = (if k' = k then Some v else map_of d k')"
  by (induction d) auto

lemma map_of_dict_values: "map_of d k = Some v \<Longrightarrow> v \<in> set (dict_values d)"
  by (auto simp: dict_values_def dest: map_of_SomeD intro: rev_image_eqI)

lemma count_list_pos: "x \<in> set xs \<Longrightarrow> 0 < count_list xs x"
  by (induction xs) auto

lemma in_waited: "r \<in> set (waited sides w) \<longleftrightarrow> r \<in> set sides \<and> truthy (t_limit (throttle_objs w r))"
  by (auto simp: waited_def)

text \<open>
  C10. Two streams constructed without the \<^verbatim>\<open>throttles\<close> argument hold the same
  dictionary, whatever their other arguments: a pair stored under a key through the first
  is found under that key through the second. In any world in which the dictionary of the
  second stream has the pair, \<open>wait\<close> of the second stream goes through it like through
  any other pair (it creates a task for the side asked for exactly when that side's limit
  is truthy), and \<open>append\<close> of the second stream calls \<open>append\<close> on that side.
\<close>

theorem default_throttles_shared:
  "throttles (ThrottleStreamIO_init None a1 b1 c1) = throttles (ThrottleStreamIO_init None a2 b2 c2) \<and>
   map_of (dict_objs (throttles_setitem (ThrottleStreamIO_init None a1 b1 c1) key pair w)
             (throttles (ThrottleStreamIO_init None a2 b2 c2))) key = Some pair \<and>
   (map_of (dict_objs w2 (throttles (ThrottleStreamIO_init None a2 b2 c2))) key = Some pair \<longrightarrow>
      (let s2 = ThrottleStreamIO_init None a2 b2 c2;
           pairs = dict_values (dict_objs w2 (throttles s2));
           rtasks = waited (map read pairs) w2;
           wtasks = waited (map write' pairs) w2
       in pair \<in> set pairs \<and>
          ThrottleStreamIO_wait io s2 ''read'' w2 =
            Inr (if rtasks \<noteq> [] then asyncio_wait io rtasks w2 else w2) \<and>
          (read pair \<in> set rtasks \<longleftrightarrow> truthy (t_limit (throttle_objs w2 (read pair)))) \<and>
          ThrottleStreamIO_wait io s2 ''write'' w2 =
            Inr (if wtasks \<noteq> [] then asyncio_wait io wtasks w2 else w2) \<and>
          (write' pair \<in> set wtasks \<longleftrightarrow> truthy (t_limit (throttle_objs w2 (write' pair)))) \<and>
          ThrottleStreamIO_append s2 ''read'' data start w2 =
            Inr (accounted (map read pairs) data start w2) \<and>
          0 < count_list (map read pairs) (read pair) \<and>
          ThrottleStreamIO_append s2 ''write'' data start w2 =
            Inr (accounted (map write' pairs) data start w2) \<and>
          0 < count_list (map write' pairs) (write' pair)))"
proof (intro conjI impI)
  show "throttles (ThrottleStreamIO_init None a1 b1 c1) =
      throttles (ThrottleStreamIO_init None a2 b2 c2)"
    by (simp add: ThrottleStreamIO_init_def Let_def)
  show "map_of (dict_objs (throttles_setitem (ThrottleStreamIO_init None a1 b1 c1) key pair w)
             (throttles (ThrottleStreamIO_init None a2 b2 c2))) key = Some pair"
    by (simp add: ThrottleStreamIO_init_def Let_def throttles_setitem_def map_of_dict_setitem)
next
  define s2 where "s2 = ThrottleStreamIO_init None a2 b2 c2"
  define pairs where "pairs = dict_values (dict_objs w2 (throttles s2))"
  assume "map_of (dict_objs w2 (throttles (ThrottleStreamIO_init None a2 b2 c2))) key = Some pair"
  then have mem: "pair \<in> set pairs"
    unfolding pairs_def s2_def by (rule map_of_dict_values)
  then have sides: "read pair \<in> set (map read pairs)" "write' pair \<in> set (map write' pairs)"
    by simp_all
  have "pair \<in> set pairs \<and>
      ThrottleStreamIO_wait io s2 ''read'' w2 =
        Inr (if waited (map read pairs) w2 \<noteq> []
             then asyncio_wait io (waited (map read pairs) w2) w2 else w2) \<and>
      (read pair \<in> set (waited (map read pairs) w2) \<longleftrightarrow>
         truthy (t_limit (throttle_objs w2 (read pair)))) \<and>
      ThrottleStreamIO_wait io s2 ''write'' w2 =
        Inr (if waited (map write' pairs) w2 \<noteq> []
             then asyncio_wait io (waited (map write' pairs) w2) w2 else w2) \<and>
      (write' pair \<in> set (waited (map write' pairs) w2) \<longleftrightarrow>
         truthy (t_limit (throttle_objs w2 (write' pair)))) \<and>
      ThrottleStreamIO_append s2 ''read'' data start w2 =
        Inr (accounted (map read pairs) data start w2) \<and>
      0 < count_list (map read pairs) (read pair) \<and>
      ThrottleStreamIO_append s2 ''write'' data start w2 =
        Inr (accounted (map write' pairs) data start w2) \<and>
      0 < count_list (map write' pairs) (write' pair)"
    using mem sides count_list_pos [OF sides(1)] count_list_pos [OF sides(2)]
    by (simp add: ThrottleStreamIO_wait_read ThrottleStreamIO_wait_write Let_def in_waited
        ThrottleStreamIO_append_def append_loop_read append_loop_write pairs_def)
  then show "let s2 = ThrottleStreamIO_init None a2 b2 c2;
           pairs = dict_values (dict_objs w2 (throttles s2));
           rtasks = waited (map read pairs) w2;
           wtasks = waited (map write' pairs) w2
       in pair \<in> set pairs \<and>
          ThrottleStreamIO_wait io s2 ''read'' w2 =
            Inr (if rtasks \<noteq> [] then asyncio_wait io rtasks w2 else w2) \<and>
          (read pair \<in> set rtasks \<longleftrightarrow> truthy (t_limit (throttle_objs w2 (read pair)))) \<and>
          ThrottleStreamIO_wait io s2 ''write'' w2 =
            Inr (if wtasks \<noteq> [] then asyncio_wait io wtasks w2 else w2) \<and>
          (write' pair \<in> set wtasks \<longleftrightarrow> truthy (t_limit (throttle_objs w2 (write' pair)))) \<and>
          ThrottleStreamIO_append s2 ''read'' data start w2 =
            Inr (accounted (map read pairs) data start w2) \<and>
          0 < count_list (map read pairs) (read pair) \<and>
          ThrottleStreamIO_append s2 ''write'' data start w2 =
            Inr (accounted (map write' pairs) data start w2) \<and>
          0 < count_list (map write' pairs) (write' pair)"
    unfolding Let_def s2_def pairs_def .
qed

text \<open>
  The default dictionary is empty in the example world; after the first stream has stored
  the pair \<^verbatim>\<open>"shared"\<close>, the second stream waits on throttle 0 and accounts four bytes
  into it.
\<close>

theorem default_throttles_shared_witness:
  "throttles example_first = throttles example_second \<and>
   dict_objs example_world (throttles example_second) = [] \<and>
   dict_objs example_shared_world (throttles example_second) =
     [(''shared'', \<lparr>read = 0, write' = 1\<rparr>)] \<and>
   ThrottleStreamIO_wait example_asyncio example_second ''read'' example_shared_world =
     Inr (asyncio_wait example_asyncio [0] example_shared_world) \<and>
   map_sum id (\<lambda>w. throttle_objs w 0)
     (ThrottleStreamIO_append example_second ''read'' ''abcd'' 5 example_shared_world) =
     Inr \<lparr>t_limit = Some 100, reset_rate = 10, t_start = Some 3, t_sum = 254\<rparr>"
proof -
  have s1: "ThrottleStreamIO_init None None None None = example_first"
    by (simp add: example_first_def)
  have s2: "ThrottleStreamIO_init None (Some 30) None None = example_second"
    by (simp add: example_second_def)
  have e: "dict_objs example_world (throttles example_second) = []"
    by (simp add: example_second_def ThrottleStreamIO_init_def Let_def example_world_def
        default_throttles_def)
  have d: "dict_objs example_shared_world (throttles example_second) =
      [(''shared'', \<lparr>read = 0, write' = 1\<rparr>)]"
    by (simp add: example_shared_world_def throttles_setitem_def example_first_def
        example_second_def ThrottleStreamIO_init_def Let_def example_world_def
        default_throttles_def)
  have objs: "throttle_objs example_shared_world 0 =
      \<lparr>t_limit = Some 100, reset_rate = 10, t_start = Some 3, t_sum = 250\<rparr>"
    by (simp add: example_shared_world_def throttles_setitem_def example_world_def)
  have w: "waited [0] example_shared_world = [0]"
    by (simp add: waited_def objs truthy_def)
  have a: "throttle_objs (accounted [0] ''abcd'' 5 example_shared_world) 0 =
      \<lparr>t_limit = Some 100, reset_rate = 10, t_start = Some 3, t_sum = 254\<rparr>"
    by (simp add: accounted_def objs Throttle_append_def Let_def float_sub_examples)
  have m: "map_of (dict_objs example_shared_world (throttles example_second)) ''shared'' =
      Some \<lparr>read = 0, write' = 1\<rparr>"
    by (simp add: d)
  have shared: "throttles example_first = throttles example_second \<and>
      ThrottleStreamIO_wait example_asyncio example_second ''read'' example_shared_world =
        Inr (if waited [0] example_shared_world \<noteq> []
             then asyncio_wait example_asyncio (waited [0] example_shared_world)
               example_shared_world
             else example_shared_world) \<and>
      ThrottleStreamIO_append example_second ''read'' ''abcd'' 5 example_shared_world =
        Inr (accounted [0] ''abcd'' 5 example_shared_world)"
    using default_throttles_shared [where ?a1.0 = None and ?b1.0 = None and ?c1.0 = None
        and ?a2.0 = "Some 30" and ?b2.0 = None and ?c2.0 = None and key = "''shared''"
        and pair = "\<lparr>read = 0, write' = 1\<rparr>" and w = example_world
        and ?w2.0 = example_shared_world and io = example_asyncio and data = "''abcd''"
        and start = 5, unfolded s1 s2 Let_def] m
    by (simp add: d dict_values_def)
  show ?thesis
    using shared by (simp add: e d w a)
qed

end
